theory Spec2Isabelle
  imports Main
begin

section \<open>Publish collectors of hooks/tk-multi-publish2/basic/collector.py\<close>

text \<open>
  The file holds three collector hooks (Substance Painter, Substance Designer, Blender).
  Each one reads the session of its host application and creates publish items under a
  parent item. The host applications, the publisher and the template engine are not part
  of the file: they are the fields of the record \<open>host\<close> below. Calls to the logger
  have no effect that the collectors can observe and are left out.
\<close>

subsection \<open>Python values the collectors handle\<close>

text \<open>Truthiness of a value that is a str or None (\<open>if path:\<close>, \<open>if not export_path:\<close>).\<close>

definition truthy :: "string option \<Rightarrow> bool" where
  "truthy p = (case p of None \<Rightarrow> False | Some s \<Rightarrow> s \<noteq> [])"

text \<open>The value of a configured setting: a template name, a boolean, or None.\<close>

datatype setting_value = SNone | SBool bool | SStr string

fun truthy_value :: "setting_value \<Rightarrow> bool" where
  "truthy_value SNone = False"
| "truthy_value (SBool b) = b"
| "truthy_value (SStr s) = (s \<noteq> [])"

text \<open>
  A setting object exposes \<open>.value\<close>; the object itself is truthy. \<open>settings.get(name)\<close>
  is the lookup of a map, None when the name is not configured.
\<close>

datatype setting = Setting (value_of: setting_value)

type_synonym settings = "string \<rightharpoonup> setting"

text \<open>A template is opaque to the collectors; the string is its identity.\<close>

datatype template = Template string

type_synonym fields = "(string \<times> string) list"

datatype error = OSError | TankError | EngineError | AttributeError

subsection \<open>os.path (posixpath) and the file system\<close>

definition sep :: char where
  "sep = CHR ''/''"

definition pardir :: string where
  "pardir = ''..''"

text \<open>One step of \<open>os.path.join\<close>: an absolute component replaces the path.\<close>

definition join2 :: "string \<Rightarrow> string \<Rightarrow> string" where
  "join2 path b =
     (if b \<noteq> [] \<and> hd b = sep then b
      else if path = [] \<or> last path = sep then path @ b
      else path @ [sep] @ b)"

definition os_path_join :: "string \<Rightarrow> string list \<Rightarrow> string" where
  "os_path_join a p = foldl join2 a p"

text \<open>
  \<open>os.path.split\<close>: the tail is what follows the last separator; the head loses its
  trailing separators unless it consists of separators only.
\<close>

definition os_path_split :: "string \<Rightarrow> string \<times> string" where
  "os_path_split p =
     (let tail = rev (takeWhile (\<lambda>c. c \<noteq> sep) (rev p));
          head = rev (dropWhile (\<lambda>c. c \<noteq> sep) (rev p))
      in (if head \<noteq> [] \<and> (\<exists>c \<in> set head. c \<noteq> sep)
          then rev (dropWhile (\<lambda>c. c = sep) (rev head)) else head, tail))"

text \<open>
  \<open>os.path.splitext\<close>: the extension starts at the last dot, provided that dot comes
  after the last separator and some character of the file name before it is not a dot.
\<close>

definition os_path_splitext :: "string \<Rightarrow> string \<times> string" where
  "os_path_splitext p =
     (let ext = rev (takeWhile (\<lambda>c. c \<noteq> CHR ''.'') (rev p));
          root = rev (tl (dropWhile (\<lambda>c. c \<noteq> CHR ''.'') (rev p)));
          name = rev (takeWhile (\<lambda>c. c \<noteq> sep) (rev root))
      in if CHR ''.'' \<in> set p \<and> sep \<notin> set ext \<and> (\<exists>c \<in> set name. c \<noteq> CHR ''.'')
         then (root, CHR ''.'' # ext) else (p, []))"

datatype fs_node = File | Dir "string list"

type_synonym disk = "string \<rightharpoonup> fs_node"

definition os_path_exists :: "disk \<Rightarrow> string \<Rightarrow> bool" where
  "os_path_exists d p = (d p \<noteq> None)"

text \<open>\<open>os.listdir\<close> raises OSError on a path that is missing or is not a directory.\<close>

definition os_listdir :: "disk \<Rightarrow> string \<Rightarrow> error + string list" where
  "os_listdir d p = (case d p of Some (Dir names) \<Rightarrow> Inr names | _ \<Rightarrow> Inl OSError)"

subsection \<open>Substance Designer packages and resources\<close>

text \<open>
  The two \<open>isinstance\<close> tests of the Designer collector distinguish compositing graphs
  and MDL graphs from every other resource.
\<close>

datatype resource_kind = SDSBSCompGraph | SDMDLGraph | SDResource

record resource =
  kind :: resource_kind
  getIdentifier :: string

record package =
  getFilePath :: string
  getChildrenResources :: "resource list"

subsection \<open>Items\<close>

datatype pval =
    PNone
  | PStr string
  | PTemplate template
  | PPackage package
  | PResource resource
  | PDict "(string \<times> string) list"

text \<open>A name-resolved template as a property value: the object, or None.\<close>

fun template_value :: "template option \<Rightarrow> pval" where
  "template_value None = PNone"
| "template_value (Some t) = PTemplate t"

text \<open>
  An item is an object of the publisher; the collectors hold references to items. The
  item store is the list of all items, a reference is the position in it.
\<close>

record item =
  parent :: nat
  item_type :: string
  type_display_name :: string
  display_name :: string
  icon :: "string option"
  properties :: "string \<rightharpoonup> pval"

text \<open>Calls into the Substance Painter engine, in the order they are made.\<close>

datatype event =
    ShowBusy string string
  | ExportDocumentMaps "string option"
  | ClearBusy

record world =
  items :: "item list"
  trace :: "event list"
  disk :: disk

text \<open>
  A dictionary object as \<open>collect_textures\<close> uses it: the pairs in iteration order, and
  whether the object has the method \<open>iteritems\<close>. A dictionary of Python 2 has it; a
  dictionary of Python 3 does not, and the call raises AttributeError. The file does not
  say which interpreter runs it, so the export result carries the answer.
\<close>

datatype 'v pydict = PyDict (has_iteritems: bool) (dict_items: "(string \<times> 'v) list")

definition iteritems :: "'v pydict \<Rightarrow> error + (string \<times> 'v) list" where
  "iteritems m = (if has_iteritems m then Inr (dict_items m) else Inl AttributeError)"

type_synonym export_info = "string pydict pydict"

text \<open>
  What the collectors call and do not define. \<open>filename\<close> is
  \<open>publisher.util.get_file_path_components(path)["filename"]\<close>; \<open>export_document_maps\<close>
  may raise, and writes to the disk; its result is a dictionary (texture set name to
  dictionary of map id to file path).
\<close>

record host =
  disk_location :: string
  get_template_by_name :: "setting_value \<Rightarrow> template option"
  filename :: "string \<Rightarrow> string"
  get_fields :: "template \<Rightarrow> string option \<Rightarrow> error + fields"
  apply_fields :: "template \<Rightarrow> fields \<Rightarrow> error + string"
  get_current_project_path :: "string option"
  get_project_export_path :: "string option"
  export_document_maps :: "string option \<Rightarrow> disk \<Rightarrow> (error + export_info) \<times> disk"
  getUserPackages :: "package list"
  bpy_data_filepath :: string

definition create_item :: "nat \<Rightarrow> string \<Rightarrow> string \<Rightarrow> string \<Rightarrow> world \<Rightarrow> nat \<times> world" where
  "create_item parent_item ty type_display name w =
     (length (items w),
      w\<lparr>items := items w @
         [\<lparr>parent = parent_item, item_type = ty, type_display_name = type_display,
           display_name = name, icon = None, properties = Map.empty\<rparr>]\<rparr>)"

definition set_icon_from_path :: "nat \<Rightarrow> string \<Rightarrow> world \<Rightarrow> world" where
  "set_icon_from_path it icon_path w =
     (if it < length (items w)
      then w\<lparr>items := (items w)[it := (items w ! it)\<lparr>icon := Some icon_path\<rparr>]\<rparr>
      else w)"

definition set_property :: "nat \<Rightarrow> string \<Rightarrow> pval \<Rightarrow> world \<Rightarrow> world" where
  "set_property it k v w =
     (if it < length (items w)
      then w\<lparr>items := (items w)[it := (items w ! it)\<lparr>properties := (properties (items w ! it))(k \<mapsto> v)\<rparr>]\<rparr>
      else w)"

definition icon_file :: "host \<Rightarrow> string \<Rightarrow> string" where
  "icon_file h name = os_path_join (disk_location h) [pardir, ''icons'', name]"

text \<open>The items created between two worlds.\<close>

definition created :: "world \<Rightarrow> world \<Rightarrow> item list" where
  "created w w' = drop (length (items w)) (items w')"

subsection \<open>BlenderSessionCollector\<close>

definition collect_current_blender_session :: "host \<Rightarrow> settings \<Rightarrow> nat \<Rightarrow> world \<Rightarrow> nat \<times> world" where
  "collect_current_blender_session h settings parent_item w =
     (let path = bpy_data_filepath h;
          name = (if path \<noteq> [] then filename h path else ''Current Blender Session'');
          (session_item, w1) = create_item parent_item ''blender.session'' ''Blender Session'' name w;
          w2 = set_icon_from_path session_item (icon_file h ''blender.png'') w1;
          w3 = (case settings ''Work Template'' of
                  None \<Rightarrow> w2
                | Some work_template_setting \<Rightarrow>
                    (let work_template = get_template_by_name h (value_of work_template_setting)
                     in set_property session_item ''publish_type'' (PStr ''Blender Project File'')
                          (set_property session_item ''work_template'' (template_value work_template) w2)))
      in (session_item, w3))"

definition collect_session_geometry :: "host \<Rightarrow> nat \<Rightarrow> world \<Rightarrow> world" where
  "collect_session_geometry h parent_item w =
     (let (geo_item, w1) = create_item parent_item ''blender.session.geometry'' ''Geometry''
                              ''All Session Geometry'' w
      in set_icon_from_path geo_item (icon_file h ''geometry.png'') w1)"

definition Blender_process_current_session :: "host \<Rightarrow> settings \<Rightarrow> nat \<Rightarrow> world \<Rightarrow> world" where
  "Blender_process_current_session h settings parent_item w =
     (let (it, w1) = collect_current_blender_session h settings parent_item w
      in collect_session_geometry h it w1)"

subsection \<open>SubstancePainterSessionCollector\<close>

text \<open>
  The collector's own declarations of \<open>settings\<close>: type and default of each name. They
  override what the base class declares under the same names.
\<close>

definition substancepainter_session_settings :: "(string \<times> string \<times> setting_value) list" where
  "substancepainter_session_settings =
     [(''Work Template'', ''template'', SNone),
      (''Work Export Template'', ''template'', SNone),
      (''Publish Textures as Folder'', ''bool'', SBool True)]"

definition SubstancePainter_settings ::
  "(string \<rightharpoonup> string \<times> setting_value) \<Rightarrow> (string \<rightharpoonup> string \<times> setting_value)" where
  "SubstancePainter_settings base = base ++ map_of substancepainter_session_settings"

definition collect_current_substancepainter_session ::
  "host \<Rightarrow> settings \<Rightarrow> nat \<Rightarrow> world \<Rightarrow> nat \<times> world" where
  "collect_current_substancepainter_session h settings parent_item w =
     (let path = get_current_project_path h;
          name = (case path of
                    None \<Rightarrow> ''Current Substance Painter Session''
                  | Some p \<Rightarrow> if p \<noteq> [] then filename h p
                             else ''Current Substance Painter Session'');
          (session_item, w1) = create_item parent_item ''substancepainter.session''
                                 ''Substance Painter Session'' name w;
          w2 = set_icon_from_path session_item (icon_file h ''session.png'') w1;
          w3 = (case settings ''Work Template'' of
                  None \<Rightarrow> w2
                | Some work_template_setting \<Rightarrow>
                    (let work_template = get_template_by_name h (value_of work_template_setting)
                     in set_property session_item ''publish_type'' (PStr ''Substance Painter Project File'')
                          (set_property session_item ''work_template'' (template_value work_template) w2)))
      in (session_item, w3))"

text \<open>
  \<open>get_export_path\<close> returns None by falling off its end unless both templates are there;
  \<open>get_fields\<close> and \<open>apply_fields\<close> may raise.
\<close>

definition get_export_path :: "host \<Rightarrow> settings \<Rightarrow> error + string option" where
  "get_export_path h settings =
     (let work_template = (case settings ''Work Template'' of
                             None \<Rightarrow> None
                           | Some s \<Rightarrow> get_template_by_name h (value_of s));
          work_export_template = (case settings ''Work Export Template'' of
                                    None \<Rightarrow> None
                                  | Some s \<Rightarrow> get_template_by_name h (value_of s))
      in case (work_export_template, work_template) of
           (Some wet, Some wt) \<Rightarrow>
             (case get_fields h wt (get_current_project_path h) of
                Inl e \<Rightarrow> Inl e
              | Inr fs \<Rightarrow>
                  (case apply_fields h wet fs of
                     Inl e \<Rightarrow> Inl e
                   | Inr export_path \<Rightarrow> Inr (Some export_path)))
         | _ \<Rightarrow> Inr None)"

definition busy_title :: string where
  "busy_title = ''Exporting textures''"

definition busy_message :: string where
  "busy_message = ''Texture are being exported so they can be published.'' @
                  [CHR 0x0A, CHR 0x0A] @ ''Please wait...''"

definition show_busy :: "string \<Rightarrow> string \<Rightarrow> world \<Rightarrow> world" where
  "show_busy title message w = w\<lparr>trace := trace w @ [ShowBusy title message]\<rparr>"

definition clear_busy :: "world \<Rightarrow> world" where
  "clear_busy w = w\<lparr>trace := trace w @ [ClearBusy]\<rparr>"

text \<open>The call of the host's export: it is recorded, and the disk is what the host leaves.\<close>

definition call_export_document_maps ::
  "host \<Rightarrow> string option \<Rightarrow> world \<Rightarrow> (error + export_info) \<times> world" where
  "call_export_document_maps h export_path w =
     (let (r, d) = export_document_maps h export_path (disk w)
      in (r, w\<lparr>trace := trace w @ [ExportDocumentMaps export_path], disk := d\<rparr>))"

definition collect_textures_as_folder ::
  "host \<Rightarrow> settings \<Rightarrow> nat \<Rightarrow> world \<Rightarrow> (error + unit) \<times> world" where
  "collect_textures_as_folder h settings parent_item w =
     (case get_export_path h settings of
        Inl e \<Rightarrow> (Inl e, w)
      | Inr ep \<Rightarrow>
          (let export_path = (if \<not> truthy ep then get_project_export_path h else ep);
               w1 = show_busy busy_title busy_message w;
               (r, w2) = call_export_document_maps h export_path w1
           in case r of
                Inl e \<Rightarrow> (Inl e, w2)
              | Inr map_export_info \<Rightarrow>
                  (let w3 = clear_busy w2
                   in case export_path of
                        None \<Rightarrow> (Inr (), w3)
                      | Some p \<Rightarrow>
                          if p = [] then (Inr (), w3)
                          else (case os_listdir (disk w3) p of
                                  Inl e \<Rightarrow> (Inl e, w3)
                                | Inr textures \<Rightarrow>
                                    if textures \<noteq> [] then
                                      (let (textures_item, w4) =
                                             create_item parent_item ''substancepainter.textures''
                                               ''Textures'' ''Substance Painter Textures'' w3;
                                           w5 = set_icon_from_path textures_item
                                                  (icon_file h ''texture.png'') w4;
                                           w6 = set_property textures_item ''path'' (PStr p) w5
                                       in (Inr (), set_property textures_item ''publish_type''
                                                     (PStr ''Texture Folder'') w6))
                                    else (Inr (), w3)))))"

text \<open>The inner loop of \<open>collect_textures\<close>, over the maps of one texture set.\<close>

fun collect_texture_set :: "host \<Rightarrow> nat \<Rightarrow> (string \<times> string) list \<Rightarrow> world \<Rightarrow> world" where
  "collect_texture_set h parent_item [] w = w"
| "collect_texture_set h parent_item ((texture_id, texture_file) # rest) w =
     (if os_path_exists (disk w) texture_file then
        (let filenamefile = snd (os_path_split texture_file);
             texture_name = fst (os_path_splitext filenamefile);
             (textures_item, w1) = create_item parent_item ''substancepainter.texture''
                                     ''Texture'' texture_name w;
             w2 = set_icon_from_path textures_item (icon_file h ''texture.png'') w1;
             w3 = set_property textures_item ''path'' (PStr texture_file) w2;
             w4 = set_property textures_item ''publish_type'' (PStr ''Texture'') w3
         in collect_texture_set h parent_item rest w4)
      else collect_texture_set h parent_item rest w)"

text \<open>
  The outer loop, over the texture sets. Each round calls \<open>texture_set.iteritems()\<close>,
  which may raise; the items of the rounds before stay.
\<close>

fun collect_texture_sets ::
  "host \<Rightarrow> nat \<Rightarrow> (string \<times> string pydict) list \<Rightarrow> world \<Rightarrow> (error + unit) \<times> world" where
  "collect_texture_sets h parent_item [] w = (Inr (), w)"
| "collect_texture_sets h parent_item ((texture_set_name, texture_set) # rest) w =
     (case iteritems texture_set of
        Inl e \<Rightarrow> (Inl e, w)
      | Inr texture_maps \<Rightarrow>
          collect_texture_sets h parent_item rest
            (collect_texture_set h parent_item texture_maps w))"

definition collect_textures ::
  "host \<Rightarrow> settings \<Rightarrow> nat \<Rightarrow> world \<Rightarrow> (error + unit) \<times> world" where
  "collect_textures h settings parent_item w =
     (case get_export_path h settings of
        Inl e \<Rightarrow> (Inl e, w)
      | Inr ep \<Rightarrow>
          (let export_path = (if \<not> truthy ep then get_project_export_path h else ep);
               w1 = show_busy busy_title busy_message w;
               (r, w2) = call_export_document_maps h export_path w1
           in case r of
                Inl e \<Rightarrow> (Inl e, w2)
              | Inr map_export_info \<Rightarrow>
                  (let w3 = clear_busy w2
                   in case iteritems map_export_info of
                        Inl e \<Rightarrow> (Inl e, w3)
                      | Inr texture_sets \<Rightarrow>
                          collect_texture_sets h parent_item texture_sets w3)))"

text \<open>The session item is an object, so \<open>if item:\<close> always holds.\<close>

definition SubstancePainter_process_current_session ::
  "host \<Rightarrow> settings \<Rightarrow> nat \<Rightarrow> world \<Rightarrow> (error + unit) \<times> world" where
  "SubstancePainter_process_current_session h settings parent_item w =
     (let (it, w1) = collect_current_substancepainter_session h settings parent_item w
      in case settings ''Publish Textures as Folder'' of
           None \<Rightarrow> collect_textures h settings it w1
         | Some publish_as_folder_setting \<Rightarrow>
             if truthy_value (value_of publish_as_folder_setting)
             then collect_textures_as_folder h settings it w1
             else collect_textures h settings it w1)"

subsection \<open>SubstanceDesignerSessionCollector\<close>

text \<open>
  The state of the loop over the resources of one package: the flat list of items, the
  two flags, and the world.
\<close>

type_synonym graph_state = "nat list \<times> bool \<times> bool \<times> world"

definition graph_item ::
  "host \<Rightarrow> template option \<Rightarrow> package \<Rightarrow> nat \<Rightarrow> resource \<Rightarrow> string \<Rightarrow> string \<Rightarrow> string \<Rightarrow>
   string \<Rightarrow> string \<Rightarrow> world \<Rightarrow> nat \<times> world" where
  "graph_item h work_template pck pck_item res ty type_display suffix icon_name publish_type w =
     (let graph_id = getIdentifier res;
          (it, w1) = create_item pck_item ty type_display (graph_id @ suffix) w;
          w2 = set_icon_from_path it (icon_file h icon_name) w1;
          w3 = set_property it ''package'' (PPackage pck) w2;
          w4 = set_property it ''resource'' (PResource res) w3;
          w5 = set_property it ''work_template'' (template_value work_template) w4;
          w6 = set_property it ''publish_type'' (PStr publish_type) w5;
          w7 = set_property it ''extra_fields''
                 (PDict [(''substancedesigner.graph.name'', graph_id)]) w6
      in (it, w7))"

definition collect_resource ::
  "host \<Rightarrow> template option \<Rightarrow> package \<Rightarrow> nat \<Rightarrow> resource \<Rightarrow> graph_state \<Rightarrow> graph_state" where
  "collect_resource h work_template pck pck_item res st =
     (let (its, has_mdl_graphs, has_comp_graphs, w) = st;
          (its1, has_comp_graphs1, w1) =
            (if kind res = SDSBSCompGraph then
               (let (it, w') = graph_item h work_template pck pck_item res
                                 ''substancedesigner.graph.textures'' ''Textures'' '' Textures''
                                 ''texture.png'' ''Texture Folder'' w
                in (its @ [it], True, w'))
             else (its, has_comp_graphs, w))
      in if kind res = SDMDLGraph then
           (let (it2, w2) = graph_item h work_template pck pck_item res
                              ''substancedesigner.graph.mdle'' ''Graph as MDLE'' '' MDLE''
                              ''substancedesigner_graph_mdle.png'' ''MDLE File'' w1;
                (it3, w3) = graph_item h work_template pck pck_item res
                              ''substancedesigner.graph.preset'' ''Graph as preset'' '' Preset(mdl)''
                              ''substancedesigner_graph_preset.png'' ''MDL File'' w2
            in (its1 @ [it2, it3], True, has_comp_graphs1, w3))
         else (its1, has_mdl_graphs, has_comp_graphs1, w1))"

fun collect_resources ::
  "host \<Rightarrow> template option \<Rightarrow> package \<Rightarrow> nat \<Rightarrow> resource list \<Rightarrow> graph_state \<Rightarrow> graph_state" where
  "collect_resources h work_template pck pck_item [] st = st"
| "collect_resources h work_template pck pck_item (res # rest) st =
     collect_resources h work_template pck pck_item rest
       (collect_resource h work_template pck pck_item res st)"

definition package_item ::
  "host \<Rightarrow> template option \<Rightarrow> package \<Rightarrow> nat \<Rightarrow> string \<Rightarrow> string \<Rightarrow> string \<Rightarrow> string \<Rightarrow>
   string \<Rightarrow> world \<Rightarrow> nat \<times> world" where
  "package_item h work_template pck parent_item ty type_display name icon_name publish_type w =
     (let (it, w1) = create_item parent_item ty type_display name w;
          w2 = set_icon_from_path it (icon_file h icon_name) w1;
          w3 = set_property it ''package'' (PPackage pck) w2;
          w4 = set_property it ''work_template'' (template_value work_template) w3;
          w5 = set_property it ''publish_type'' (PStr publish_type) w4
      in (it, w5))"

definition collect_package ::
  "host \<Rightarrow> template option \<Rightarrow> nat \<Rightarrow> package \<Rightarrow> nat list \<times> world \<Rightarrow> nat list \<times> world" where
  "collect_package h work_template parent_item pck st =
     (let (its, w) = st;
          pck_id = filename h (getFilePath pck);
          (pck_item, w1) = package_item h work_template pck parent_item
                             ''substancedesigner.package'' ''Substance Designer Package'' pck_id
                             ''substancedesigner.png'' ''Substance Designer File'' w;
          (its2, has_mdl_graphs, has_comp_graphs, w2) =
             collect_resources h work_template pck pck_item (getChildrenResources pck)
               (its @ [pck_item], False, False, w1);
          (its3, w3) =
             (if has_mdl_graphs then
                (let (pck_mdl_item, w') = package_item h work_template pck pck_item
                                            ''substancedesigner.package.mdl'' ''Package as MDL Module''
                                            (pck_id @ '' MDL Module'')
                                            ''substancedesigner_graph_mdl.png'' ''MDL File'' w2
                 in (its2 @ [pck_mdl_item], w'))
              else (its2, w2))
      in if has_comp_graphs then
           (let (pck_archive_item, w') = package_item h work_template pck pck_item
                                           ''substancedesigner.package.archive''
                                           ''Substance Designer Package Archive''
                                           (pck_id @ '' Archive'')
                                           ''substancedesignerarchive.png''
                                           ''Substance Designer Archive'' w3
            in (its3 @ [pck_archive_item], w'))
         else (its3, w3))"

fun collect_packages ::
  "host \<Rightarrow> template option \<Rightarrow> nat \<Rightarrow> package list \<Rightarrow> nat list \<times> world \<Rightarrow> nat list \<times> world" where
  "collect_packages h work_template parent_item [] st = st"
| "collect_packages h work_template parent_item (pck # rest) st =
     collect_packages h work_template parent_item rest
       (collect_package h work_template parent_item pck st)"

definition collect_current_substancedesigner_session ::
  "host \<Rightarrow> settings \<Rightarrow> nat \<Rightarrow> world \<Rightarrow> nat list \<times> world" where
  "collect_current_substancedesigner_session h settings parent_item w =
     (let work_template = (case settings ''Work Template'' of
                             None \<Rightarrow> None
                           | Some s \<Rightarrow> get_template_by_name h (value_of s))
      in collect_packages h work_template parent_item (getUserPackages h) ([], w))"

text \<open>
  \<open>process_current_session\<close> appends what the collection returned, as one element, to an
  empty list when it is truthy (a non-empty list), and returns that list.
\<close>

definition SubstanceDesigner_process_current_session ::
  "host \<Rightarrow> settings \<Rightarrow> nat \<Rightarrow> world \<Rightarrow> nat list list \<times> world" where
  "SubstanceDesigner_process_current_session h settings parent_item w =
     (let (session_item, w1) = collect_current_substancedesigner_session h settings parent_item w
      in (if session_item \<noteq> [] then [] @ [session_item] else [], w1))"

subsection \<open>Vocabulary of the properties\<close>

text \<open>
  The definitions below are not functions of the source. They name the finished items
  (an item after its icon and its properties have been set) so that the lemmas can say
  which items a collector appends to the store.
\<close>

definition filled :: "nat \<Rightarrow> string \<Rightarrow> string \<Rightarrow> string \<Rightarrow> string \<Rightarrow> (string \<rightharpoonup> pval) \<Rightarrow> item" where
  "filled p ty td n ic props =
     \<lparr>parent = p, item_type = ty, type_display_name = td, display_name = n,
      icon = Some ic, properties = props\<rparr>"

definition add_items :: "item list \<Rightarrow> world \<Rightarrow> world" where
  "add_items its w = w\<lparr>items := items w @ its\<rparr>"

definition painter_display_name :: "host \<Rightarrow> string" where
  "painter_display_name h =
     (case get_current_project_path h of
        None \<Rightarrow> ''Current Substance Painter Session''
      | Some p \<Rightarrow> if p \<noteq> [] then filename h p else ''Current Substance Painter Session'')"

definition session_properties :: "host \<Rightarrow> settings \<Rightarrow> string \<Rightarrow> (string \<rightharpoonup> pval)" where
  "session_properties h settings publish_type =
     (case settings ''Work Template'' of
        None \<Rightarrow> Map.empty
      | Some s \<Rightarrow> [''work_template'' \<mapsto> template_value (get_template_by_name h (value_of s)),
                   ''publish_type'' \<mapsto> PStr publish_type])"

definition texture_item :: "host \<Rightarrow> nat \<Rightarrow> string \<Rightarrow> item" where
  "texture_item h p f =
     filled p ''substancepainter.texture'' ''Texture''
       (fst (os_path_splitext (snd (os_path_split f)))) (icon_file h ''texture.png'')
       [''path'' \<mapsto> PStr f, ''publish_type'' \<mapsto> PStr ''Texture'']"

definition graph_properties :: "template option \<Rightarrow> package \<Rightarrow> resource \<Rightarrow> string \<Rightarrow> (string \<rightharpoonup> pval)" where
  "graph_properties wt pck res publish_type =
     [''package'' \<mapsto> PPackage pck, ''resource'' \<mapsto> PResource res,
      ''work_template'' \<mapsto> template_value wt, ''publish_type'' \<mapsto> PStr publish_type,
      ''extra_fields'' \<mapsto> PDict [(''substancedesigner.graph.name'', getIdentifier res)]]"

definition package_properties :: "template option \<Rightarrow> package \<Rightarrow> string \<Rightarrow> (string \<rightharpoonup> pval)" where
  "package_properties wt pck publish_type =
     [''package'' \<mapsto> PPackage pck, ''work_template'' \<mapsto> template_value wt,
      ''publish_type'' \<mapsto> PStr publish_type]"

definition resource_items :: "host \<Rightarrow> template option \<Rightarrow> package \<Rightarrow> nat \<Rightarrow> resource \<Rightarrow> item list" where
  "resource_items h wt pck pck_item res =
     (if kind res = SDSBSCompGraph
      then [filled pck_item ''substancedesigner.graph.textures'' ''Textures''
              (getIdentifier res @ '' Textures'') (icon_file h ''texture.png'')
              (graph_properties wt pck res ''Texture Folder'')]
      else []) @
     (if kind res = SDMDLGraph
      then [filled pck_item ''substancedesigner.graph.mdle'' ''Graph as MDLE''
              (getIdentifier res @ '' MDLE'') (icon_file h ''substancedesigner_graph_mdle.png'')
              (graph_properties wt pck res ''MDLE File''),
            filled pck_item ''substancedesigner.graph.preset'' ''Graph as preset''
              (getIdentifier res @ '' Preset(mdl)'') (icon_file h ''substancedesigner_graph_preset.png'')
              (graph_properties wt pck res ''MDL File'')]
      else [])"

definition package_items :: "host \<Rightarrow> template option \<Rightarrow> nat \<Rightarrow> package \<Rightarrow> nat \<Rightarrow> item list" where
  "package_items h wt parent_item pck n =
     [filled parent_item ''substancedesigner.package'' ''Substance Designer Package''
        (filename h (getFilePath pck)) (icon_file h ''substancedesigner.png'')
        (package_properties wt pck ''Substance Designer File'')] @
     concat (map (resource_items h wt pck n) (getChildrenResources pck)) @
     (if \<exists>r \<in> set (getChildrenResources pck). kind r = SDMDLGraph
      then [filled n ''substancedesigner.package.mdl'' ''Package as MDL Module''
              (filename h (getFilePath pck) @ '' MDL Module'')
              (icon_file h ''substancedesigner_graph_mdl.png'')
              (package_properties wt pck ''MDL File'')]
      else []) @
     (if \<exists>r \<in> set (getChildrenResources pck). kind r = SDSBSCompGraph
      then [filled n ''substancedesigner.package.archive'' ''Substance Designer Package Archive''
              (filename h (getFilePath pck) @ '' Archive'')
              (icon_file h ''substancedesignerarchive.png'')
              (package_properties wt pck ''Substance Designer Archive'')]
      else [])"

fun packages_items :: "host \<Rightarrow> template option \<Rightarrow> nat \<Rightarrow> package list \<Rightarrow> nat \<Rightarrow> item list" where
  "packages_items h wt parent_item [] n = []"
| "packages_items h wt parent_item (pck # rest) n =
     package_items h wt parent_item pck n @
     packages_items h wt parent_item rest (n + length (package_items h wt parent_item pck n))"

text \<open>
  For the texture collection of Substance Painter: the export path after the fallback to
  the application's own export path, the world at the moment the export call has
  returned or raised, and the finished folder item.
\<close>

definition resolved_export_path :: "host \<Rightarrow> string option \<Rightarrow> string option" where
  "resolved_export_path h ep = (if \<not> truthy ep then get_project_export_path h else ep)"

definition after_export :: "string option \<Rightarrow> disk \<Rightarrow> world \<Rightarrow> world" where
  "after_export export_path d w =
     w\<lparr>trace := trace w @ [ShowBusy busy_title busy_message, ExportDocumentMaps export_path],
       disk := d\<rparr>"

definition textures_folder_item :: "host \<Rightarrow> nat \<Rightarrow> string \<Rightarrow> item" where
  "textures_folder_item h p path =
     filled p ''substancepainter.textures'' ''Textures'' ''Substance Painter Textures''
       (icon_file h ''texture.png'')
       [''path'' \<mapsto> PStr path, ''publish_type'' \<mapsto> PStr ''Texture Folder'']"

text \<open>
  For the loop over the texture sets: the sets that are iterated before the first one
  whose \<open>iteritems\<close> raises, the files of a list of sets in iteration order, and how the
  loop ends.
\<close>

definition iterable_sets :: "(string \<times> string pydict) list \<Rightarrow> (string \<times> string pydict) list" where
  "iterable_sets texture_sets = takeWhile (\<lambda>ts. has_iteritems (snd ts)) texture_sets"

definition exported_files :: "(string \<times> string pydict) list \<Rightarrow> string list" where
  "exported_files texture_sets = concat (map (\<lambda>ts. map snd (dict_items (snd ts))) texture_sets)"

definition sets_outcome :: "(string \<times> string pydict) list \<Rightarrow> error + unit" where
  "sets_outcome texture_sets =
     (if list_all (\<lambda>ts. has_iteritems (snd ts)) texture_sets then Inr () else Inl AttributeError)"

text \<open>
  For the Designer collector: the template that the collection resolves up front, and the
  references of the items appended to a store of \<open>n\<close> items.
\<close>

definition designer_work_template :: "host \<Rightarrow> settings \<Rightarrow> template option" where
  "designer_work_template h settings =
     (case settings ''Work Template'' of
        None \<Rightarrow> None
      | Some s \<Rightarrow> get_template_by_name h (value_of s))"

definition refs :: "nat \<Rightarrow> item list \<Rightarrow> nat list" where
  "refs n new = [n..<n + length new]"

subsection \<open>An example session\<close>

text \<open>
  A host, a store with the root item of the publisher, and settings, on which the
  properties below are evaluated.
\<close>

definition example_package :: package where
  "example_package =
     \<lparr>getFilePath = ''/proj/rock.sbs'',
      getChildrenResources =
        [\<lparr>kind = SDSBSCompGraph, getIdentifier = ''rock''\<rparr>,
         \<lparr>kind = SDResource, getIdentifier = ''folder''\<rparr>,
         \<lparr>kind = SDMDLGraph, getIdentifier = ''shader''\<rparr>]\<rparr>"

definition example_empty_package :: package where
  "example_empty_package = \<lparr>getFilePath = ''/proj/empty.sbs'', getChildrenResources = []\<rparr>"

definition example_root :: item where
  "example_root =
     \<lparr>parent = 0, item_type = ''root'', type_display_name = ''Root'', display_name = ''__root__'',
      icon = None, properties = Map.empty\<rparr>"

definition example_world :: world where
  "example_world = \<lparr>items = [example_root], trace = [], disk = Map.empty\<rparr>"

definition example_texture_set :: "string pydict" where
  "example_texture_set =
     PyDict True [(''diffuse'', ''/tmp/a_diffuse.png''),
                  (''normal'', ''/tmp/a_normal.png''),
                  (''height'', ''/tmp/a_height.png'')]"

definition example_export_info :: export_info where
  "example_export_info = PyDict True [(''set1'', example_texture_set)]"

definition example_host :: host where
  "example_host =
     \<lparr>disk_location = ''/cfg/hooks'',
      get_template_by_name =
        (\<lambda>v. case v of SStr n \<Rightarrow> if n = [] then None else Some (Template n) | _ \<Rightarrow> None),
      filename = (\<lambda>p. snd (os_path_split p)),
      get_fields = (\<lambda>t p. case p of None \<Rightarrow> Inl TankError | Some q \<Rightarrow> Inr [(''name'', q)]),
      apply_fields = (\<lambda>t fs. case map_of fs ''name'' of None \<Rightarrow> Inl TankError
                                | Some q \<Rightarrow> Inr (q @ ''.export'')),
      get_current_project_path = Some ''/proj/rock.spp'',
      get_project_export_path = Some ''/proj/export'',
      export_document_maps =
        (\<lambda>p d. (Inr example_export_info,
                 d(''/tmp/a_diffuse.png'' \<mapsto> File, ''/tmp/a_normal.png'' \<mapsto> File,
                   ''/proj/export'' \<mapsto> Dir [''a_diffuse.png'', ''a_normal.png'']))),
      getUserPackages = [example_package],
      bpy_data_filepath = ''/proj/scene.blend''\<rparr>"

definition example_settings :: settings where
  "example_settings =
     [''Work Template'' \<mapsto> Setting (SStr ''painter_work''),
      ''Work Export Template'' \<mapsto> Setting (SStr ''painter_export''),
      ''Publish Textures as Folder'' \<mapsto> Setting (SBool True)]"

text \<open>
  Variants of the example host: the export raises; the export writes nothing; the export
  returns dictionaries that have no \<open>iteritems\<close>.
\<close>

definition example_failing_host :: host where
  "example_failing_host = example_host\<lparr>export_document_maps := (\<lambda>p d. (Inl EngineError, d))\<rparr>"

definition example_idle_host :: host where
  "example_idle_host = example_host\<lparr>export_document_maps := (\<lambda>p d. (Inr (PyDict True []), d))\<rparr>"


section \<open>Properties\<close>

subsection \<open>Creating an item and filling it\<close>

lemma create_item_fst: "fst (create_item p ty td n w) = length (items w)"
  by (simp add: create_item_def)

lemma add_items_Nil: "add_items [] w = w"
  by (simp add: add_items_def)

lemma add_items_add_items: "add_items ys (add_items xs w) = add_items (xs @ ys) w"
  by (simp add: add_items_def)

lemma items_add_items: "items (add_items xs w) = items w @ xs"
  by (simp add: add_items_def)

lemma trace_add_items: "trace (add_items xs w) = trace w"
  by (simp add: add_items_def)

lemma disk_add_items: "disk (add_items xs w) = disk w"
  by (simp add: add_items_def)

lemma blender_session_eq:
  "collect_current_blender_session h settings p w =
     (length (items w),
      add_items [filled p ''blender.session'' ''Blender Session''
         (if bpy_data_filepath h \<noteq> [] then filename h (bpy_data_filepath h) else ''Current Blender Session'')
         (icon_file h ''blender.png'') (session_properties h settings ''Blender Project File'')] w)"
  by (simp add: collect_current_blender_session_def create_item_def set_icon_from_path_def
      set_property_def filled_def add_items_def session_properties_def Let_def split: option.splits)

lemma painter_session_eq:
  "collect_current_substancepainter_session h settings p w =
     (length (items w),
      add_items [filled p ''substancepainter.session'' ''Substance Painter Session''
         (painter_display_name h)
         (icon_file h ''session.png'') (session_properties h settings ''Substance Painter Project File'')] w)"
  by (simp add: collect_current_substancepainter_session_def create_item_def set_icon_from_path_def
      set_property_def filled_def add_items_def session_properties_def painter_display_name_def
      Let_def split: option.splits)

lemma geometry_eq:
  "collect_session_geometry h p w =
     add_items [filled p ''blender.session.geometry'' ''Geometry'' ''All Session Geometry''
                  (icon_file h ''geometry.png'') Map.empty] w"
  by (simp add: collect_session_geometry_def create_item_def set_icon_from_path_def
      filled_def add_items_def)

lemma graph_item_eq:
  "graph_item h wt pck pck_item res ty td suffix icon_name publish_type w =
     (length (items w),
      add_items [filled pck_item ty td (getIdentifier res @ suffix) (icon_file h icon_name)
                   (graph_properties wt pck res publish_type)] w)"
  by (simp add: graph_item_def create_item_def set_icon_from_path_def
      set_property_def filled_def add_items_def graph_properties_def Let_def)

lemma package_item_eq:
  "package_item h wt pck p ty td name icon_name publish_type w =
     (length (items w),
      add_items [filled p ty td name (icon_file h icon_name)
                   (package_properties wt pck publish_type)] w)"
  by (simp add: package_item_def create_item_def set_icon_from_path_def
      set_property_def filled_def add_items_def package_properties_def Let_def)

lemma collect_texture_set_eq:
  "collect_texture_set h p es w =
     add_items (map (texture_item h p) (filter (os_path_exists (disk w)) (map snd es))) w"
proof (induction es arbitrary: w)
  case Nil
  show ?case by (simp add: add_items_Nil)
next
  case (Cons e es)
  obtain texture_id texture_file where e: "e = (texture_id, texture_file)"
    by (cases e)
  have block: "set_property (length (items w)) ''publish_type'' (PStr ''Texture'')
          (set_property (length (items w)) ''path'' (PStr texture_file)
            (set_icon_from_path (length (items w)) (icon_file h ''texture.png'')
              (snd (create_item p ''substancepainter.texture'' ''Texture''
                      (fst (os_path_splitext (snd (os_path_split texture_file)))) w))))
        = add_items [texture_item h p texture_file] w"
    by (simp add: create_item_def set_icon_from_path_def set_property_def filled_def
        add_items_def texture_item_def)
  show ?case
  proof (cases "os_path_exists (disk w) texture_file")
    case True
    then show ?thesis
      using block
      by (simp add: e Cons.IH create_item_fst Let_def case_prod_beta
          add_items_add_items disk_add_items)
  next
    case False
    then show ?thesis
      by (simp add: e Cons.IH)
  qed
qed

lemma collect_texture_sets_eq:
  "collect_texture_sets h p texture_sets w =
     (sets_outcome texture_sets,
      add_items (map (texture_item h p)
                   (filter (os_path_exists (disk w)) (exported_files (iterable_sets texture_sets)))) w)"
proof (induction texture_sets arbitrary: w)
  case Nil
  show ?case
    by (simp add: add_items_Nil sets_outcome_def exported_files_def iterable_sets_def)
next
  case (Cons ts texture_sets)
  obtain texture_set_name texture_set where ts: "ts = (texture_set_name, texture_set)"
    by (cases ts)
  show ?case
  proof (cases "has_iteritems texture_set")
    case True
    then show ?thesis
      by (simp add: ts Cons.IH iteritems_def collect_texture_set_eq add_items_add_items
          disk_add_items sets_outcome_def exported_files_def iterable_sets_def)
  next
    case False
    then show ?thesis
      by (simp add: ts iteritems_def add_items_Nil sets_outcome_def exported_files_def
          iterable_sets_def)
  qed
qed

subsection \<open>Blender: the session item and its geometry child\<close>

text \<open>
  Claim C9. Whatever the settings are, \<open>process_current_session\<close> of the Blender
  collector appends exactly two items to the store: one \<open>blender.session\<close> item under
  the parent item, and one \<open>blender.session.geometry\<close> item named
  "All Session Geometry" under that session item. The geometry item has an icon and an
  empty property dictionary.
\<close>

theorem blender_creates_session_and_geometry:
  "items (Blender_process_current_session h settings parent_item w) =
     items w @
     [\<lparr>parent = parent_item, item_type = ''blender.session'',
       type_display_name = ''Blender Session'',
       display_name = (if bpy_data_filepath h \<noteq> [] then filename h (bpy_data_filepath h)
                       else ''Current Blender Session''),
       icon = Some (icon_file h ''blender.png''),
       properties = session_properties h settings ''Blender Project File''\<rparr>,
      \<lparr>parent = length (items w), item_type = ''blender.session.geometry'',
       type_display_name = ''Geometry'', display_name = ''All Session Geometry'',
       icon = Some (icon_file h ''geometry.png''), properties = Map.empty\<rparr>]"
  by (simp add: Blender_process_current_session_def blender_session_eq geometry_eq
      items_add_items filled_def)

subsection \<open>Substance Painter: the export path\<close>



subsection \<open>Substance Designer: what process_current_session returns\<close>

text \<open>
  The entry point returns the empty list when the collection is empty, and otherwise a
  list whose single element is the collected list.
\<close>

lemma designer_process_result:
  "fst (SubstanceDesigner_process_current_session h settings p w) =
     (if fst (collect_current_substancedesigner_session h settings p w) = [] then []
      else [fst (collect_current_substancedesigner_session h settings p w)])"
  by (simp add: SubstanceDesigner_process_current_session_def case_prod_beta)

text \<open>
  Claim C2 says that the entry point returns the flat list itself. With one user package
  that has no resources, the collection returns the list of one item reference, and the
  entry point returns a list that contains that list.
\<close>

theorem designer_process_wraps_the_list:
  "fst (collect_current_substancedesigner_session
          (example_host\<lparr>getUserPackages := [example_empty_package]\<rparr>) Map.empty 0 example_world) = [1] \<and>
   fst (SubstanceDesigner_process_current_session
          (example_host\<lparr>getUserPackages := [example_empty_package]\<rparr>) Map.empty 0 example_world) = [[1]]"
  by (simp add: SubstanceDesigner_process_current_session_def
      collect_current_substancedesigner_session_def collect_package_def package_item_eq
      example_host_def example_empty_package_def example_world_def items_add_items
      case_prod_beta)

subsection \<open>Substance Painter: the two texture collections, step by step\<close>

lemma export_raises:
  assumes "export_document_maps h export_path (disk w) = (Inl e, d)"
  shows "call_export_document_maps h export_path (show_busy busy_title busy_message w) =
           (Inl e, after_export export_path d w)"
  using assms by (simp add: call_export_document_maps_def show_busy_def after_export_def)

lemma export_returns:
  assumes "export_document_maps h export_path (disk w) = (Inr info, d)"
  shows "call_export_document_maps h export_path (show_busy busy_title busy_message w) =
           (Inr info, after_export export_path d w)"
  using assms by (simp add: call_export_document_maps_def show_busy_def after_export_def)

lemma folder_raises:
  assumes "get_export_path h settings = Inr ep"
    and "export_document_maps h (resolved_export_path h ep) (disk w) = (Inl e, d)"
  shows "collect_textures_as_folder h settings p w =
           (Inl e, after_export (resolved_export_path h ep) d w)"
  using assms(1) export_raises [OF assms(2)]
  by (simp add: collect_textures_as_folder_def resolved_export_path_def Let_def)

lemma textures_raises:
  assumes "get_export_path h settings = Inr ep"
    and "export_document_maps h (resolved_export_path h ep) (disk w) = (Inl e, d)"
  shows "collect_textures h settings p w =
           (Inl e, after_export (resolved_export_path h ep) d w)"
  using assms(1) export_raises [OF assms(2)]
  by (simp add: collect_textures_def resolved_export_path_def Let_def)

lemma folder_returns:
  assumes "get_export_path h settings = Inr ep"
    and "export_document_maps h (resolved_export_path h ep) (disk w) = (Inr info, d)"
  shows "collect_textures_as_folder h settings p w =
           (case resolved_export_path h ep of
              None \<Rightarrow> (Inr (), clear_busy (after_export None d w))
            | Some path \<Rightarrow>
                if path = [] then (Inr (), clear_busy (after_export (Some path) d w))
                else (case os_listdir d path of
                        Inl e \<Rightarrow> (Inl e, clear_busy (after_export (Some path) d w))
                      | Inr textures \<Rightarrow>
                          if textures \<noteq> []
                          then (Inr (), add_items [textures_folder_item h p path]
                                          (clear_busy (after_export (Some path) d w)))
                          else (Inr (), clear_busy (after_export (Some path) d w))))"
proof -
  have block: "\<And>path v. set_property (length (items v)) ''publish_type'' (PStr ''Texture Folder'')
          (set_property (length (items v)) ''path'' (PStr path)
            (set_icon_from_path (length (items v)) (icon_file h ''texture.png'')
              (snd (create_item p ''substancepainter.textures'' ''Textures''
                      ''Substance Painter Textures'' v))))
        = add_items [textures_folder_item h p path] v"
    by (simp add: create_item_def set_icon_from_path_def set_property_def filled_def
        add_items_def textures_folder_item_def)
  have d: "disk (clear_busy (after_export x d w)) = d" for x
    by (simp add: clear_busy_def after_export_def)
  show ?thesis
    using assms(1) export_returns [OF assms(2)]
    by (simp add: collect_textures_as_folder_def resolved_export_path_def [symmetric] Let_def
        case_prod_beta create_item_fst block d split: option.splits sum.splits)
qed

lemma textures_returns:
  assumes "get_export_path h settings = Inr ep"
    and "export_document_maps h (resolved_export_path h ep) (disk w) = (Inr info, d)"
  shows "collect_textures h settings p w =
           (if has_iteritems info
            then (sets_outcome (dict_items info),
                  add_items (map (texture_item h p)
                               (filter (os_path_exists d)
                                  (exported_files (iterable_sets (dict_items info)))))
                    (clear_busy (after_export (resolved_export_path h ep) d w)))
            else (Inl AttributeError, clear_busy (after_export (resolved_export_path h ep) d w)))"
proof -
  have d: "disk (clear_busy (after_export x d w)) = d" for x
    by (simp add: clear_busy_def after_export_def)
  show ?thesis
    using assms(1) export_returns [OF assms(2)]
    by (simp add: collect_textures_def resolved_export_path_def [symmetric] Let_def
        collect_texture_sets_eq d iteritems_def)
qed


lemma trace_clear_after:
  "trace (clear_busy (after_export x d w)) =
     trace w @ [ShowBusy busy_title busy_message, ExportDocumentMaps x, ClearBusy]"
  by (simp add: clear_busy_def after_export_def)

lemma items_clear_after: "items (clear_busy (after_export x d w)) = items w"
  by (simp add: clear_busy_def after_export_def)

subsection \<open>Substance Painter: the busy indicator around the export\<close>

text \<open>
  Claim C7. In \<open>collect_textures_as_folder\<close> and in \<open>collect_textures\<close>, once the export
  path is known, the engine sees \<open>show_busy\<close>, then \<open>export_document_maps\<close>, then
  \<open>clear_busy\<close> with nothing in between, when the export returns. When the export raises,
  the error goes to the caller and the last call the engine has seen is the export:
  \<open>clear_busy\<close> is not called.
\<close>

theorem busy_shown_before_export_and_cleared_on_return_only:
  assumes "get_export_path h settings = Inr ep"
  shows "(export_document_maps h (resolved_export_path h ep) (disk w) = (Inr info, d) \<longrightarrow>
            trace (snd (collect_textures_as_folder h settings p w)) =
              trace w @ [ShowBusy busy_title busy_message,
                         ExportDocumentMaps (resolved_export_path h ep), ClearBusy] \<and>
            trace (snd (collect_textures h settings p w)) =
              trace w @ [ShowBusy busy_title busy_message,
                         ExportDocumentMaps (resolved_export_path h ep), ClearBusy]) \<and>
         (export_document_maps h (resolved_export_path h ep) (disk w) = (Inl e, d) \<longrightarrow>
            fst (collect_textures_as_folder h settings p w) = Inl e \<and>
            trace (snd (collect_textures_as_folder h settings p w)) =
              trace w @ [ShowBusy busy_title busy_message,
                         ExportDocumentMaps (resolved_export_path h ep)] \<and>
            fst (collect_textures h settings p w) = Inl e \<and>
            trace (snd (collect_textures h settings p w)) =
              trace w @ [ShowBusy busy_title busy_message,
                         ExportDocumentMaps (resolved_export_path h ep)])"
proof (intro conjI impI)
  assume ok: "export_document_maps h (resolved_export_path h ep) (disk w) = (Inr info, d)"
  show "trace (snd (collect_textures_as_folder h settings p w)) =
          trace w @ [ShowBusy busy_title busy_message,
                     ExportDocumentMaps (resolved_export_path h ep), ClearBusy]"
    by (simp add: folder_returns [OF assms ok] trace_clear_after trace_add_items
        split: option.splits sum.splits)
  show "trace (snd (collect_textures h settings p w)) =
          trace w @ [ShowBusy busy_title busy_message,
                     ExportDocumentMaps (resolved_export_path h ep), ClearBusy]"
    by (simp add: textures_returns [OF assms ok] trace_clear_after trace_add_items)
next
  assume bad: "export_document_maps h (resolved_export_path h ep) (disk w) = (Inl e, d)"
  show "fst (collect_textures_as_folder h settings p w) = Inl e"
    by (simp add: folder_raises [OF assms bad])
  show "trace (snd (collect_textures_as_folder h settings p w)) =
          trace w @ [ShowBusy busy_title busy_message,
                     ExportDocumentMaps (resolved_export_path h ep)]"
    by (simp add: folder_raises [OF assms bad] after_export_def)
  show "fst (collect_textures h settings p w) = Inl e"
    by (simp add: textures_raises [OF assms bad])
  show "trace (snd (collect_textures h settings p w)) =
          trace w @ [ShowBusy busy_title busy_message,
                     ExportDocumentMaps (resolved_export_path h ep)]"
    by (simp add: textures_raises [OF assms bad] after_export_def)
qed

text \<open>The example hosts have no templates configured, so the export path is the application's.\<close>

lemma example_export_path: "get_export_path example_host Map.empty = Inr None"
  by (simp add: get_export_path_def)

lemma example_failing_export_path: "get_export_path example_failing_host Map.empty = Inr None"
  by (simp add: get_export_path_def)

lemma example_idle_export_path: "get_export_path example_idle_host Map.empty = Inr None"
  by (simp add: get_export_path_def)

lemma example_resolved [simp]:
  "resolved_export_path example_host None = Some ''/proj/export''"
  "resolved_export_path example_failing_host None = Some ''/proj/export''"
  "resolved_export_path example_idle_host None = Some ''/proj/export''"
  by (simp_all add: resolved_export_path_def truthy_def example_host_def
      example_failing_host_def example_idle_host_def)

theorem busy_witness:
  "trace (snd (collect_textures_as_folder example_host Map.empty 0 example_world)) =
     [ShowBusy busy_title busy_message, ExportDocumentMaps (Some ''/proj/export''), ClearBusy] \<and>
   trace (snd (collect_textures example_host Map.empty 0 example_world)) =
     [ShowBusy busy_title busy_message, ExportDocumentMaps (Some ''/proj/export''), ClearBusy] \<and>
   fst (collect_textures_as_folder example_failing_host Map.empty 0 example_world) = Inl EngineError \<and>
   trace (snd (collect_textures_as_folder example_failing_host Map.empty 0 example_world)) =
     [ShowBusy busy_title busy_message, ExportDocumentMaps (Some ''/proj/export'')] \<and>
   fst (collect_textures example_failing_host Map.empty 0 example_world) = Inl EngineError \<and>
   trace (snd (collect_textures example_failing_host Map.empty 0 example_world)) =
     [ShowBusy busy_title busy_message, ExportDocumentMaps (Some ''/proj/export'')]"
proof -
  have ok: "export_document_maps example_host (resolved_export_path example_host None)
              (disk example_world) =
            (Inr example_export_info,
             (disk example_world)(''/tmp/a_diffuse.png'' \<mapsto> File, ''/tmp/a_normal.png'' \<mapsto> File,
                   ''/proj/export'' \<mapsto> Dir [''a_diffuse.png'', ''a_normal.png'']))"
    by (simp add: example_host_def)
  have bad: "export_document_maps example_failing_host
               (resolved_export_path example_failing_host None) (disk example_world) =
             (Inl EngineError, disk example_world)"
    by (simp add: example_failing_host_def)
  have t: "trace example_world = []"
    by (simp add: example_world_def)
  show ?thesis
    using busy_shown_before_export_and_cleared_on_return_only
            [OF example_export_path, where w = example_world and p = 0, THEN conjunct1, rule_format, OF ok]
          busy_shown_before_export_and_cleared_on_return_only
            [OF example_failing_export_path, where w = example_world and p = 0, THEN conjunct2, rule_format, OF bad]
    by (simp add: t)
qed

subsection \<open>Substance Painter: one item per exported file that exists\<close>




subsection \<open>Substance Painter: folder mode without files\<close>

text \<open>
  Claim C3 says that a resolved export path that does not exist on disk is skipped
  silently. On the example host whose export writes nothing, the export path
  \<open>/proj/export\<close> does not exist after the export, and \<open>os.listdir\<close> raises: the
  collection ends with OSError.
\<close>

theorem folder_missing_directory_raises:
  "get_export_path example_idle_host Map.empty = Inr None \<and>
   resolved_export_path example_idle_host None = Some ''/proj/export'' \<and>
   \<not> os_path_exists
        (disk (snd (collect_textures_as_folder example_idle_host Map.empty 1 example_world)))
        ''/proj/export'' \<and>
   fst (collect_textures_as_folder example_idle_host Map.empty 1 example_world) = Inl OSError"
proof -
  have ok: "export_document_maps example_idle_host (resolved_export_path example_idle_host None)
              (disk example_world) = (Inr (PyDict True []), disk example_world)"
    by (simp add: example_idle_host_def)
  have d: "disk example_world = Map.empty"
    by (simp add: example_world_def)
  show ?thesis
    by (simp add: folder_returns [OF example_idle_export_path ok] example_idle_export_path
        os_listdir_def os_path_exists_def d clear_busy_def after_export_def)
qed

text \<open>
  Claim C3, amended. When the export returns: if there is no export path (None or the
  empty string), or listing it yields no files, no item is created and no error is raised;
  if the export path is a non-empty string that does not exist on disk, no item is created
  and the OSError of the listing goes to the caller.
\<close>

theorem folder_skips_or_raises:
  assumes "get_export_path h settings = Inr ep"
    and "export_document_maps h (resolved_export_path h ep) (disk w) = (Inr info, d)"
  shows "(resolved_export_path h ep = None \<or> resolved_export_path h ep = Some [] \<or>
          (\<exists>path. resolved_export_path h ep = Some path \<and> os_listdir d path = Inr [])
            \<longrightarrow> fst (collect_textures_as_folder h settings parent_item w) = Inr () \<and>
                created w (snd (collect_textures_as_folder h settings parent_item w)) = []) \<and>
         (\<forall>path. resolved_export_path h ep = Some path \<and> path \<noteq> [] \<and> \<not> os_path_exists d path
            \<longrightarrow> fst (collect_textures_as_folder h settings parent_item w) = Inl OSError \<and>
                created w (snd (collect_textures_as_folder h settings parent_item w)) = [])"
  by (auto simp: folder_returns [OF assms] created_def items_clear_after os_listdir_def
      os_path_exists_def)

theorem folder_skips_or_raises_witness:
  "fst (collect_textures_as_folder (example_idle_host\<lparr>get_project_export_path := None\<rparr>)
          Map.empty 1 example_world) = Inr () \<and>
   created example_world
     (snd (collect_textures_as_folder (example_idle_host\<lparr>get_project_export_path := None\<rparr>)
          Map.empty 1 example_world)) = [] \<and>
   fst (collect_textures_as_folder example_idle_host Map.empty 1
          (example_world\<lparr>disk := [''/proj/export'' \<mapsto> Dir []]\<rparr>)) = Inr () \<and>
   created (example_world\<lparr>disk := [''/proj/export'' \<mapsto> Dir []]\<rparr>)
     (snd (collect_textures_as_folder example_idle_host Map.empty 1
          (example_world\<lparr>disk := [''/proj/export'' \<mapsto> Dir []]\<rparr>))) = [] \<and>
   fst (collect_textures_as_folder example_idle_host Map.empty 1 example_world) = Inl OSError \<and>
   created example_world
     (snd (collect_textures_as_folder example_idle_host Map.empty 1 example_world)) = []"
proof -
  let ?h = "example_idle_host\<lparr>get_project_export_path := None\<rparr>"
  let ?w = "example_world\<lparr>disk := [''/proj/export'' \<mapsto> Dir []]\<rparr>"
  have g: "get_export_path ?h Map.empty = Inr None"
    by (simp add: get_export_path_def)
  have r: "resolved_export_path ?h None = None"
    by (simp add: resolved_export_path_def truthy_def)
  have ok1: "export_document_maps ?h (resolved_export_path ?h None) (disk example_world) =
               (Inr (PyDict True []), disk example_world)"
    by (simp add: example_idle_host_def)
  have ok2: "export_document_maps example_idle_host (resolved_export_path example_idle_host None)
               (disk ?w) = (Inr (PyDict True []), [''/proj/export'' \<mapsto> Dir []])"
    by (simp add: example_idle_host_def)
  have ok3: "export_document_maps example_idle_host (resolved_export_path example_idle_host None)
               (disk example_world) = (Inr (PyDict True []), Map.empty)"
    by (simp add: example_idle_host_def example_world_def)
  have a: "fst (collect_textures_as_folder ?h Map.empty 1 example_world) = Inr () \<and>
           created example_world (snd (collect_textures_as_folder ?h Map.empty 1 example_world)) = []"
    using folder_skips_or_raises [OF g ok1, where parent_item = 1] r by simp
  have b: "fst (collect_textures_as_folder example_idle_host Map.empty 1 ?w) = Inr () \<and>
           created ?w (snd (collect_textures_as_folder example_idle_host Map.empty 1 ?w)) = []"
    using folder_skips_or_raises [OF example_idle_export_path ok2, where parent_item = 1]
    by (simp add: os_listdir_def)
  have c: "fst (collect_textures_as_folder example_idle_host Map.empty 1 example_world) = Inl OSError \<and>
           created example_world
             (snd (collect_textures_as_folder example_idle_host Map.empty 1 example_world)) = []"
    using folder_skips_or_raises [OF example_idle_export_path ok3, where parent_item = 1]
    by (simp add: os_path_exists_def)
  from a b c show ?thesis by simp
qed

subsection \<open>Substance Painter: folder mode with files\<close>

text \<open>
  Claim C4. With Publish Textures as Folder set to true (the default that the collector
  declares), an export that returns and an export directory whose listing is not empty,
  \<open>process_current_session\<close> raises nothing and creates exactly one
  \<open>substancepainter.textures\<close> item, a child of the session item, with \<open>path\<close> the
  export directory and \<open>publish_type\<close> "Texture Folder"; it creates no
  \<open>substancepainter.texture\<close> item.
\<close>

theorem folder_mode_creates_one_textures_item:
  assumes "settings ''Publish Textures as Folder'' = Some s"
    and "value_of s = SBool True"
    and "get_export_path h settings = Inr ep"
    and "resolved_export_path h ep = Some path"
    and "path \<noteq> []"
    and "export_document_maps h (Some path) (disk w) = (Inr info, d)"
    and "os_listdir d path = Inr names"
    and "names \<noteq> []"
  shows "fst (SubstancePainter_process_current_session h settings parent_item w) = Inr () \<and>
         filter (\<lambda>i. item_type i = ''substancepainter.textures'')
           (created w (snd (SubstancePainter_process_current_session h settings parent_item w))) =
           [\<lparr>parent = length (items w), item_type = ''substancepainter.textures'',
             type_display_name = ''Textures'', display_name = ''Substance Painter Textures'',
             icon = Some (icon_file h ''texture.png''),
             properties = [''path'' \<mapsto> PStr path, ''publish_type'' \<mapsto> PStr ''Texture Folder'']\<rparr>] \<and>
         filter (\<lambda>i. item_type i = ''substancepainter.texture'')
           (created w (snd (SubstancePainter_process_current_session h settings parent_item w))) = [] \<and>
         SubstancePainter_settings base ''Publish Textures as Folder'' = Some (''bool'', SBool True)"
proof -
  obtain v where v: "collect_current_substancepainter_session h settings parent_item w =
                       (length (items w), v)"
    and iv: "items v = items w @ [filled parent_item ''substancepainter.session''
                          ''Substance Painter Session''
                          (painter_display_name h)
                          (icon_file h ''session.png'')
                          (session_properties h settings ''Substance Painter Project File'')]"
    and dv: "disk v = disk w"
    by (simp add: painter_session_eq items_add_items disk_add_items)
  have ok: "export_document_maps h (resolved_export_path h ep) (disk v) = (Inr info, d)"
    using assms(4,6) dv by simp
  have run: "SubstancePainter_process_current_session h settings parent_item w =
               collect_textures_as_folder h settings (length (items w)) v"
    using assms(1,2) by (simp add: SubstancePainter_process_current_session_def v)
  have res: "collect_textures_as_folder h settings (length (items w)) v =
               (Inr (), add_items [textures_folder_item h (length (items w)) path]
                          (clear_busy (after_export (Some path) d v)))"
    using assms(4,5,7,8) by (simp add: folder_returns [OF assms(3) ok])
  have dflt: "SubstancePainter_settings base ''Publish Textures as Folder'' = Some (''bool'', SBool True)"
    by (simp add: SubstancePainter_settings_def substancepainter_session_settings_def)
  show ?thesis
    by (simp add: run res created_def items_add_items items_clear_after iv dflt
        textures_folder_item_def filled_def)
qed

theorem folder_mode_witness:
  "fst (SubstancePainter_process_current_session example_host
          [''Publish Textures as Folder'' \<mapsto> Setting (SBool True)] 0 example_world) = Inr () \<and>
   filter (\<lambda>i. item_type i = ''substancepainter.textures'')
     (created example_world (snd (SubstancePainter_process_current_session example_host
          [''Publish Textures as Folder'' \<mapsto> Setting (SBool True)] 0 example_world))) =
     [\<lparr>parent = 1, item_type = ''substancepainter.textures'',
       type_display_name = ''Textures'', display_name = ''Substance Painter Textures'',
       icon = Some ''/cfg/hooks/../icons/texture.png'',
       properties = [''path'' \<mapsto> PStr ''/proj/export'', ''publish_type'' \<mapsto> PStr ''Texture Folder'']\<rparr>] \<and>
   filter (\<lambda>i. item_type i = ''substancepainter.texture'')
     (created example_world (snd (SubstancePainter_process_current_session example_host
          [''Publish Textures as Folder'' \<mapsto> Setting (SBool True)] 0 example_world))) = []"
proof -
  let ?s = "[''Publish Textures as Folder'' \<mapsto> Setting (SBool True)]"
  have g: "get_export_path example_host ?s = Inr None"
    by (simp add: get_export_path_def)
  have ok: "export_document_maps example_host (Some ''/proj/export'') (disk example_world) =
            (Inr example_export_info,
             [''/tmp/a_diffuse.png'' \<mapsto> File, ''/tmp/a_normal.png'' \<mapsto> File,
              ''/proj/export'' \<mapsto> Dir [''a_diffuse.png'', ''a_normal.png'']])"
    by (simp add: example_host_def example_world_def)
  have l: "os_listdir [''/tmp/a_diffuse.png'' \<mapsto> File, ''/tmp/a_normal.png'' \<mapsto> File,
              ''/proj/export'' \<mapsto> Dir [''a_diffuse.png'', ''a_normal.png'']] ''/proj/export'' =
           Inr [''a_diffuse.png'', ''a_normal.png'']"
    by (simp add: os_listdir_def)
  have icon: "icon_file example_host ''texture.png'' = ''/cfg/hooks/../icons/texture.png''"
    by (simp add: icon_file_def os_path_join_def join2_def pardir_def sep_def example_host_def)
  have n: "length (items example_world) = 1"
    by (simp add: example_world_def)
  show ?thesis
    using folder_mode_creates_one_textures_item
      [where settings = ?s and s = "Setting (SBool True)" and h = example_host and ep = None
         and path = "''/proj/export''" and w = example_world and parent_item = 0,
       OF _ _ g _ _ ok l]
    by (simp add: icon n)
qed

subsection \<open>Substance Designer: the collection appends the items of each package\<close>

lemma refs_Nil: "refs n [] = []"
  by (simp add: refs_def)

lemma refs_single: "refs n [x] = [n]"
  by (simp add: refs_def)

lemma refs_append: "refs n xs @ refs (n + length xs) ys = refs n (xs @ ys)"
proof -
  have "[n..<n + length xs + length ys] = [n..<n + length xs] @ [n + length xs..<n + length xs + length ys]"
    by (rule upt_add_eq_append) simp
  then show ?thesis
    by (simp add: refs_def add.assoc)
qed

lemma refs_Cons: "n # refs (Suc n) ys = refs n (x # ys)"
  using refs_append [of n "[x]" ys] by (simp add: refs_single)

lemma collect_resource_eq:
  "collect_resource h wt pck pck_item res (its, has_mdl, has_comp, w) =
     (its @ refs (length (items w)) (resource_items h wt pck pck_item res),
      has_mdl \<or> kind res = SDMDLGraph, has_comp \<or> kind res = SDSBSCompGraph,
      add_items (resource_items h wt pck pck_item res) w)"
  by (cases "kind res")
     (simp_all add: collect_resource_def graph_item_eq resource_items_def add_items_add_items
        items_add_items add_items_Nil refs_def)

lemma collect_resources_eq:
  "collect_resources h wt pck pck_item rs (its, has_mdl, has_comp, w) =
     (its @ refs (length (items w)) (concat (map (resource_items h wt pck pck_item) rs)),
      has_mdl \<or> (\<exists>r \<in> set rs. kind r = SDMDLGraph),
      has_comp \<or> (\<exists>r \<in> set rs. kind r = SDSBSCompGraph),
      add_items (concat (map (resource_items h wt pck pck_item) rs)) w)"
proof (induction rs arbitrary: its has_mdl has_comp w)
  case Nil
  show ?case by (simp add: add_items_Nil refs_Nil)
next
  case (Cons r rs)
  show ?case
    by (simp add: collect_resource_eq Cons.IH items_add_items add_items_add_items
        refs_append disj_ac)
qed

lemma collect_package_eq:
  "collect_package h wt parent_item pck (its, w) =
     (its @ refs (length (items w)) (package_items h wt parent_item pck (length (items w))),
      add_items (package_items h wt parent_item pck (length (items w))) w)"
proof -
  let ?n = "length (items w)"
  let ?gs = "concat (map (resource_items h wt pck ?n) (getChildrenResources pck))"
  have tail: "refs (Suc ?n) ?gs @ [Suc (?n + length ?gs)] = refs (Suc ?n) (?gs @ [x])" for x
    using refs_append [of "Suc ?n" ?gs "[x]"] by (simp add: refs_single)
  have tail2: "refs (Suc ?n) ?gs @ [Suc (?n + length ?gs), Suc (Suc (?n + length ?gs))] =
                 refs (Suc ?n) (?gs @ [x, y])" for x y
    using refs_append [of "Suc ?n" ?gs "[x, y]"] by (simp add: refs_def upt_conv_Cons)
  show ?thesis
    by (simp add: collect_package_def package_item_eq collect_resources_eq items_add_items
        add_items_add_items package_items_def Let_def refs_Cons [symmetric] tail tail2)
qed

lemma collect_packages_eq:
  "collect_packages h wt parent_item pcks (its, w) =
     (its @ refs (length (items w)) (packages_items h wt parent_item pcks (length (items w))),
      add_items (packages_items h wt parent_item pcks (length (items w))) w)"
proof (induction pcks arbitrary: its w)
  case Nil
  show ?case by (simp add: add_items_Nil refs_Nil)
next
  case (Cons pck pcks)
  show ?case
    by (simp add: collect_package_eq Cons.IH items_add_items add_items_add_items
        refs_append)
qed

lemma designer_session_eq:
  "collect_current_substancedesigner_session h settings parent_item w =
     (refs (length (items w))
        (packages_items h (designer_work_template h settings) parent_item
           (getUserPackages h) (length (items w))),
      add_items (packages_items h (designer_work_template h settings) parent_item
                   (getUserPackages h) (length (items w))) w)"
  by (simp add: collect_current_substancedesigner_session_def designer_work_template_def
      collect_packages_eq Let_def)

subsection \<open>Substance Designer: counting the items by type\<close>

lemma nth_refs: "map (\<lambda>i. (xs @ new) ! i) (refs (length xs) new) = new"
proof -
  have "refs (length xs) new = map (\<lambda>i. i + length xs) [0..<length new]"
    by (simp add: refs_def map_add_upt add.commute)
  then have "map (\<lambda>i. (xs @ new) ! i) (refs (length xs) new) =
               map (\<lambda>i. new ! i) [0..<length new]"
    by (simp add: comp_def nth_append)
  then show ?thesis
    by (simp add: map_nth)
qed

lemma length_refs: "length (refs n new) = length new"
  by (simp add: refs_def)

lemma count_by_type:
  "length (filter (\<lambda>i. item_type ((xs @ new) ! i) = ty) (refs (length xs) new)) =
     length (filter (\<lambda>it. item_type it = ty) new)"
proof -
  have "length (filter (\<lambda>i. item_type ((xs @ new) ! i) = ty) (refs (length xs) new)) =
          length (filter (\<lambda>it. item_type it = ty)
                    (map (\<lambda>i. (xs @ new) ! i) (refs (length xs) new)))"
    by (simp add: filter_map comp_def)
  then show ?thesis
    by (simp add: nth_refs)
qed

lemma count_resource_items:
  "length (filter (\<lambda>it. item_type it = ty) (concat (map (resource_items h wt pck n) rs))) =
     (if ty = ''substancedesigner.graph.textures''
      then length (filter (\<lambda>r. kind r = SDSBSCompGraph) rs) else 0) +
     (if ty = ''substancedesigner.graph.mdle''
      then length (filter (\<lambda>r. kind r = SDMDLGraph) rs) else 0) +
     (if ty = ''substancedesigner.graph.preset''
      then length (filter (\<lambda>r. kind r = SDMDLGraph) rs) else 0)"
  by (induction rs) (simp_all add: resource_items_def filled_def)

lemma length_resource_items:
  "length (concat (map (resource_items h wt pck n) rs)) =
     length (filter (\<lambda>r. kind r = SDSBSCompGraph) rs) +
     2 * length (filter (\<lambda>r. kind r = SDMDLGraph) rs)"
  by (induction rs) (simp_all add: resource_items_def)

lemma one_of_kind: "length (filter P xs) = Suc 0 \<Longrightarrow> \<exists>x \<in> set xs. P x"
  by (induction xs) (auto split: if_splits)

text \<open>
  Claim C1. With exactly one user package that holds exactly one compositing graph and
  exactly one MDL graph (and any number of other resources), the flat list returned by
  \<open>collect_current_substancedesigner_session\<close> has six elements, they refer to exactly
  the items created, and each of the types \<open>substancedesigner.package\<close>,
  \<open>substancedesigner.graph.textures\<close>, \<open>substancedesigner.graph.mdle\<close>,
  \<open>substancedesigner.graph.preset\<close>, \<open>substancedesigner.package.mdl\<close> and
  \<open>substancedesigner.package.archive\<close> occurs once among them.
\<close>

theorem designer_one_package_six_items:
  assumes "getUserPackages h = [pck]"
    and "length (filter (\<lambda>r. kind r = SDSBSCompGraph) (getChildrenResources pck)) = 1"
    and "length (filter (\<lambda>r. kind r = SDMDLGraph) (getChildrenResources pck)) = 1"
    and "collect_current_substancedesigner_session h settings parent_item w = (its, w')"
  shows "length its = 6 \<and>
         map (\<lambda>i. items w' ! i) its = created w w' \<and>
         length (filter (\<lambda>i. item_type (items w' ! i) = ''substancedesigner.package'') its) = 1 \<and>
         length (filter (\<lambda>i. item_type (items w' ! i) = ''substancedesigner.graph.textures'') its) = 1 \<and>
         length (filter (\<lambda>i. item_type (items w' ! i) = ''substancedesigner.graph.mdle'') its) = 1 \<and>
         length (filter (\<lambda>i. item_type (items w' ! i) = ''substancedesigner.graph.preset'') its) = 1 \<and>
         length (filter (\<lambda>i. item_type (items w' ! i) = ''substancedesigner.package.mdl'') its) = 1 \<and>
         length (filter (\<lambda>i. item_type (items w' ! i) = ''substancedesigner.package.archive'') its) = 1"
proof -
  let ?wt = "designer_work_template h settings"
  let ?n = "length (items w)"
  let ?new = "package_items h ?wt parent_item pck ?n"
  have its: "its = refs ?n ?new" and w': "items w' = items w @ ?new"
    using assms(1,4) by (auto simp: designer_session_eq items_add_items)
  have comp: "\<exists>r \<in> set (getChildrenResources pck). kind r = SDSBSCompGraph"
    using assms(2) by (simp add: one_of_kind)
  have mdl: "\<exists>r \<in> set (getChildrenResources pck). kind r = SDMDLGraph"
    using assms(3) by (simp add: one_of_kind)
  have count: "length (filter (\<lambda>it. item_type it = ty) ?new) =
      (if ty = ''substancedesigner.package'' then 1 else 0) +
      (if ty = ''substancedesigner.graph.textures'' then 1 else 0) +
      (if ty = ''substancedesigner.graph.mdle'' then 1 else 0) +
      (if ty = ''substancedesigner.graph.preset'' then 1 else 0) +
      (if ty = ''substancedesigner.package.mdl'' then 1 else 0) +
      (if ty = ''substancedesigner.package.archive'' then 1 else 0)" for ty
    using comp mdl assms(2,3)
    by (simp add: package_items_def count_resource_items filled_def)
  have len: "length ?new = 6"
    using comp mdl assms(2,3) by (simp add: package_items_def length_resource_items)
  have flat: "map (\<lambda>i. items w' ! i) its = created w w'"
    by (simp add: its w' nth_refs created_def)
  show ?thesis
    by (simp add: flat) (simp add: its w' count_by_type count length_refs len)
qed

theorem designer_six_items_witness:
  "fst (collect_current_substancedesigner_session example_host Map.empty 0 example_world) =
     [1, 2, 3, 4, 5, 6] \<and>
   map item_type
     (created example_world
        (snd (collect_current_substancedesigner_session example_host Map.empty 0 example_world))) =
     [''substancedesigner.package'', ''substancedesigner.graph.textures'',
      ''substancedesigner.graph.mdle'', ''substancedesigner.graph.preset'',
      ''substancedesigner.package.mdl'', ''substancedesigner.package.archive'']"
proof -
  obtain its w' where r: "collect_current_substancedesigner_session example_host Map.empty 0
                            example_world = (its, w')"
    by (cases "collect_current_substancedesigner_session example_host Map.empty 0 example_world")
  have p: "getUserPackages example_host = [example_package]"
    by (simp add: example_host_def)
  have c: "length (filter (\<lambda>r. kind r = SDSBSCompGraph) (getChildrenResources example_package)) = 1"
    by (simp add: example_package_def)
  have m: "length (filter (\<lambda>r. kind r = SDMDLGraph) (getChildrenResources example_package)) = 1"
    by (simp add: example_package_def)
  have six: "length its = 6"
    using designer_one_package_six_items [OF p c m r] by simp
  have n: "length (items example_world) = 1"
    by (simp add: example_world_def)
  let ?new = "packages_items example_host (designer_work_template example_host Map.empty)
                0 (getUserPackages example_host) 1"
  have a: "its = refs 1 ?new"
    using r unfolding designer_session_eq n by simp
  have b: "length ?new = 6"
    using six by (simp only: a length_refs)
  have c6: "[1..<1 + 6] = [1, 2, 3, 4, 5, 6::nat]"
    by code_simp
  have its: "its = [1, 2, 3, 4, 5, 6]"
    by (simp only: a refs_def b c6)
  have tys: "map item_type (created example_world w') =
     [''substancedesigner.package'', ''substancedesigner.graph.textures'',
      ''substancedesigner.graph.mdle'', ''substancedesigner.graph.preset'',
      ''substancedesigner.package.mdl'', ''substancedesigner.package.archive'']"
    using r
    by (auto simp: designer_session_eq items_add_items p package_items_def resource_items_def
        example_package_def created_def filled_def)
  show ?thesis
    using its tys by (simp add: r)
qed

subsection \<open>The work template on the items\<close>

text \<open>
  The texture collections of Substance Painter keep the store and append items that have
  no \<open>work_template\<close> key, whether they return or raise.
\<close>

lemma folder_appends:
  "\<exists>new. items (snd (collect_textures_as_folder h settings q v)) = items v @ new \<and>
         (\<forall>it \<in> set new. properties it ''work_template'' = None)"
proof (cases "get_export_path h settings")
  case (Inl e)
  then show ?thesis
    by (simp add: collect_textures_as_folder_def)
next
  case (Inr ep)
  obtain r d where x: "export_document_maps h (resolved_export_path h ep) (disk v) = (r, d)"
    by (cases "export_document_maps h (resolved_export_path h ep) (disk v)")
  show ?thesis
  proof (cases r)
    case (Inl e)
    with x have "export_document_maps h (resolved_export_path h ep) (disk v) = (Inl e, d)"
      by simp
    then show ?thesis
      by (simp add: folder_raises [OF Inr] after_export_def)
  next
    case (Inr info)
    with x have ok: "export_document_maps h (resolved_export_path h ep) (disk v) = (Inr info, d)"
      by simp
    show ?thesis
      by (simp add: folder_returns [OF \<open>get_export_path h settings = Inr ep\<close> ok]
          items_clear_after items_add_items textures_folder_item_def filled_def
          split: option.splits sum.splits)
  qed
qed

lemma textures_appends:
  "\<exists>new. items (snd (collect_textures h settings q v)) = items v @ new \<and>
         (\<forall>it \<in> set new. properties it ''work_template'' = None)"
proof (cases "get_export_path h settings")
  case (Inl e)
  then show ?thesis
    by (simp add: collect_textures_def)
next
  case (Inr ep)
  obtain r d where x: "export_document_maps h (resolved_export_path h ep) (disk v) = (r, d)"
    by (cases "export_document_maps h (resolved_export_path h ep) (disk v)")
  show ?thesis
  proof (cases r)
    case (Inl e)
    with x have "export_document_maps h (resolved_export_path h ep) (disk v) = (Inl e, d)"
      by simp
    then show ?thesis
      by (simp add: textures_raises [OF Inr] after_export_def)
  next
    case (Inr info)
    with x have ok: "export_document_maps h (resolved_export_path h ep) (disk v) = (Inr info, d)"
      by simp
    show ?thesis
      by (auto simp: textures_returns [OF \<open>get_export_path h settings = Inr ep\<close> ok]
          items_clear_after items_add_items texture_item_def filled_def)
  qed
qed

lemma painter_process_appends:
  "\<exists>new. created w (snd (SubstancePainter_process_current_session h settings p w)) =
           filled p ''substancepainter.session'' ''Substance Painter Session''
             (painter_display_name h)
             (icon_file h ''session.png'')
             (session_properties h settings ''Substance Painter Project File'') # new \<and>
         (\<forall>it \<in> set new. properties it ''work_template'' = None)"
proof -
  let ?v = "snd (collect_current_substancepainter_session h settings p w)"
  let ?q = "length (items w)"
  have run: "SubstancePainter_process_current_session h settings p w =
               collect_textures_as_folder h settings ?q ?v \<or>
             SubstancePainter_process_current_session h settings p w =
               collect_textures h settings ?q ?v"
    by (simp add: SubstancePainter_process_current_session_def painter_session_eq
        split: option.splits)
  have "\<exists>new. items (snd (SubstancePainter_process_current_session h settings p w)) =
                 items ?v @ new \<and> (\<forall>it \<in> set new. properties it ''work_template'' = None)"
    using run folder_appends [of h settings ?q ?v] textures_appends [of h settings ?q ?v]
    by auto
  then show ?thesis
    by (auto simp: created_def painter_session_eq items_add_items)
qed

lemma session_properties_template:
  "session_properties h settings publish_type ''work_template'' = Some v \<Longrightarrow>
     \<exists>s. settings ''Work Template'' = Some s \<and>
         v = template_value (get_template_by_name h (value_of s))"
  by (auto simp: session_properties_def split: option.splits)

lemma template_value_not_path: "template_value t \<noteq> PStr path"
  by (cases t) simp_all

lemma package_items_template:
  "it \<in> set (package_items h wt p pck n) \<Longrightarrow>
     properties it ''work_template'' = Some (template_value wt)"
  by (auto simp: package_items_def resource_items_def filled_def package_properties_def
      graph_properties_def split: if_splits)

lemma packages_items_template:
  "it \<in> set (packages_items h wt p pcks n) \<Longrightarrow>
     properties it ''work_template'' = Some (template_value wt)"
  by (induction pcks arbitrary: n) (auto simp: package_items_template)

lemma designer_created:
  "created w (snd (collect_current_substancedesigner_session h settings p w)) =
     packages_items h (designer_work_template h settings) p (getUserPackages h) (length (items w))"
  by (simp add: designer_session_eq created_def items_add_items)

lemma painter_session_created:
  "created w (snd (collect_current_substancepainter_session h settings p w)) =
     [filled p ''substancepainter.session'' ''Substance Painter Session''
        (painter_display_name h)
        (icon_file h ''session.png'')
        (session_properties h settings ''Substance Painter Project File'')]"
  by (simp add: painter_session_eq created_def items_add_items)

lemma blender_session_created:
  "created w (snd (collect_current_blender_session h settings p w)) =
     [filled p ''blender.session'' ''Blender Session''
        (if bpy_data_filepath h \<noteq> [] then filename h (bpy_data_filepath h)
         else ''Current Blender Session'')
        (icon_file h ''blender.png'') (session_properties h settings ''Blender Project File'')]"
  by (simp add: blender_session_eq created_def items_add_items)

lemma blender_process_created:
  "created w (Blender_process_current_session h settings p w) =
     [filled p ''blender.session'' ''Blender Session''
        (if bpy_data_filepath h \<noteq> [] then filename h (bpy_data_filepath h)
         else ''Current Blender Session'')
        (icon_file h ''blender.png'') (session_properties h settings ''Blender Project File''),
      filled (length (items w)) ''blender.session.geometry'' ''Geometry'' ''All Session Geometry''
        (icon_file h ''geometry.png'') Map.empty]"
  by (simp add: Blender_process_current_session_def blender_session_eq geometry_eq
      items_add_items created_def)

text \<open>
  Claim C8 says that an item that carries a \<open>work_template\<close> property holds the
  template object that name resolution returned. Without a Work Template setting there
  is no name resolution, and the package item of the Designer collector carries the key
  \<open>work_template\<close> with the value None.
\<close>

theorem designer_stores_None_without_setting:
  "(Map.empty :: settings) ''Work Template'' = None \<and>
   item_type (created example_world
                (snd (collect_current_substancedesigner_session example_host Map.empty 0
                        example_world)) ! 0) = ''substancedesigner.package'' \<and>
   properties (created example_world
                 (snd (collect_current_substancedesigner_session example_host Map.empty 0
                         example_world)) ! 0) ''work_template'' = Some PNone"
  by (simp add: designer_created designer_work_template_def example_host_def package_items_def
      filled_def package_properties_def)

text \<open>
  Claim C8, amended. On an item created by the Painter or the Blender collector, a
  \<open>work_template\<close> property is there only when the Work Template setting is configured,
  and it is the value that \<open>get_template_by_name\<close> returned for the setting's value. On
  every item created by the Designer collector the property is that value when the
  setting is configured and None when it is not. In all three collectors no fields are
  applied: the stored value is never a path string.
\<close>

theorem stored_work_template_is_unresolved:
  "(\<forall>it \<in> set (created w (snd (SubstancePainter_process_current_session h settings p w))).
      \<forall>v. properties it ''work_template'' = Some v \<longrightarrow>
          (\<exists>s. settings ''Work Template'' = Some s \<and>
               v = template_value (get_template_by_name h (value_of s))) \<and>
          (\<forall>path. v \<noteq> PStr path)) \<and>
   (\<forall>it \<in> set (created w (Blender_process_current_session h settings p w)).
      \<forall>v. properties it ''work_template'' = Some v \<longrightarrow>
          (\<exists>s. settings ''Work Template'' = Some s \<and>
               v = template_value (get_template_by_name h (value_of s))) \<and>
          (\<forall>path. v \<noteq> PStr path)) \<and>
   (\<forall>it \<in> set (created w (snd (collect_current_substancedesigner_session h settings p w))).
      \<exists>v. properties it ''work_template'' = Some v \<and>
          v = (case settings ''Work Template'' of
                 None \<Rightarrow> PNone
               | Some s \<Rightarrow> template_value (get_template_by_name h (value_of s))) \<and>
          (\<forall>path. v \<noteq> PStr path))"
proof -
  have session: "(\<exists>s. settings ''Work Template'' = Some s \<and>
                      v = template_value (get_template_by_name h (value_of s))) \<and>
                 (\<forall>path. v \<noteq> PStr path)"
    if "session_properties h settings publish_type ''work_template'' = Some v"
    for publish_type v
    using session_properties_template [OF that] by (auto simp: template_value_not_path)
  have painter: "\<forall>it \<in> set (created w (snd (SubstancePainter_process_current_session h settings p w))).
      \<forall>v. properties it ''work_template'' = Some v \<longrightarrow>
          (\<exists>s. settings ''Work Template'' = Some s \<and>
               v = template_value (get_template_by_name h (value_of s))) \<and>
          (\<forall>path. v \<noteq> PStr path)"
  proof (intro ballI allI impI)
    fix it v
    assume it: "it \<in> set (created w (snd (SubstancePainter_process_current_session h settings p w)))"
      and v: "properties it ''work_template'' = Some v"
    from painter_process_appends [of w h settings p] it v
    have "session_properties h settings ''Substance Painter Project File'' ''work_template'' = Some v"
      by (auto simp: filled_def)
    then show "(\<exists>s. settings ''Work Template'' = Some s \<and>
                  v = template_value (get_template_by_name h (value_of s))) \<and>
               (\<forall>path. v \<noteq> PStr path)"
      by (rule session)
  qed
  have blender: "\<forall>it \<in> set (created w (Blender_process_current_session h settings p w)).
      \<forall>v. properties it ''work_template'' = Some v \<longrightarrow>
          (\<exists>s. settings ''Work Template'' = Some s \<and>
               v = template_value (get_template_by_name h (value_of s))) \<and>
          (\<forall>path. v \<noteq> PStr path)"
  proof (intro ballI allI impI)
    fix it v
    assume it: "it \<in> set (created w (Blender_process_current_session h settings p w))"
      and v: "properties it ''work_template'' = Some v"
    then have "session_properties h settings ''Blender Project File'' ''work_template'' = Some v"
      by (auto simp: blender_process_created filled_def)
    then show "(\<exists>s. settings ''Work Template'' = Some s \<and>
                  v = template_value (get_template_by_name h (value_of s))) \<and>
               (\<forall>path. v \<noteq> PStr path)"
      by (rule session)
  qed
  have designer: "\<forall>it \<in> set (created w (snd (collect_current_substancedesigner_session h settings p w))).
      \<exists>v. properties it ''work_template'' = Some v \<and>
          v = (case settings ''Work Template'' of
                 None \<Rightarrow> PNone
               | Some s \<Rightarrow> template_value (get_template_by_name h (value_of s))) \<and>
          (\<forall>path. v \<noteq> PStr path)"
  proof
    fix it
    assume "it \<in> set (created w (snd (collect_current_substancedesigner_session h settings p w)))"
    then have "properties it ''work_template'' =
                 Some (template_value (designer_work_template h settings))"
      by (simp add: designer_created packages_items_template)
    moreover have "template_value (designer_work_template h settings) =
                     (case settings ''Work Template'' of
                        None \<Rightarrow> PNone
                      | Some s \<Rightarrow> template_value (get_template_by_name h (value_of s)))"
      by (simp add: designer_work_template_def split: option.splits)
    ultimately show "\<exists>v. properties it ''work_template'' = Some v \<and>
            v = (case settings ''Work Template'' of
                   None \<Rightarrow> PNone
                 | Some s \<Rightarrow> template_value (get_template_by_name h (value_of s))) \<and>
            (\<forall>path. v \<noteq> PStr path)"
      by (auto simp: template_value_not_path split: option.splits)
  qed
  from painter blender designer show ?thesis
    by (intro conjI)
qed

theorem stored_work_template_witness:
  "properties (created example_world
       (snd (SubstancePainter_process_current_session example_host example_settings 0
               example_world)) ! 0) ''work_template'' = Some (PTemplate (Template ''painter_work'')) \<and>
   properties (created example_world
       (Blender_process_current_session example_host example_settings 0 example_world) ! 0)
     ''work_template'' = Some (PTemplate (Template ''painter_work'')) \<and>
   properties (created example_world
       (snd (collect_current_substancedesigner_session example_host example_settings 0
               example_world)) ! 0) ''work_template'' = Some (PTemplate (Template ''painter_work''))"
proof -
  let ?cp = "created example_world
       (snd (SubstancePainter_process_current_session example_host example_settings 0 example_world))"
  let ?cb = "created example_world
       (Blender_process_current_session example_host example_settings 0 example_world)"
  let ?cd = "created example_world
       (snd (collect_current_substancedesigner_session example_host example_settings 0 example_world))"
  note inst = stored_work_template_is_unresolved
               [where w = example_world and h = example_host and settings = example_settings
                  and p = 0]
  have s: "example_settings ''Work Template'' = Some (Setting (SStr ''painter_work''))"
    by (simp add: example_settings_def)
  have t: "get_template_by_name example_host (SStr ''painter_work'') = Some (Template ''painter_work'')"
    by (simp add: example_host_def)
  obtain new where cp: "?cp = filled 0 ''substancepainter.session'' ''Substance Painter Session''
             (painter_display_name example_host)
             (icon_file example_host ''session.png'')
             (session_properties example_host example_settings ''Substance Painter Project File'') # new"
    using painter_process_appends [of example_world example_host example_settings 0] by blast
  have mp: "?cp ! 0 \<in> set ?cp"
    by (simp add: cp)
  have kp: "properties (?cp ! 0) ''work_template'' =
              Some (template_value (get_template_by_name example_host (SStr ''painter_work'')))"
    by (simp add: cp filled_def session_properties_def s)
  have a: "properties (?cp ! 0) ''work_template'' = Some (PTemplate (Template ''painter_work''))"
    using inst [THEN conjunct1, rule_format, OF mp kp] kp by (simp add: s t)
  have mb: "?cb ! 0 \<in> set ?cb"
    by (simp add: blender_process_created)
  have kb: "properties (?cb ! 0) ''work_template'' =
              Some (template_value (get_template_by_name example_host (SStr ''painter_work'')))"
    by (simp add: blender_process_created filled_def session_properties_def s)
  have b: "properties (?cb ! 0) ''work_template'' = Some (PTemplate (Template ''painter_work''))"
    using inst [THEN conjunct2, THEN conjunct1, rule_format, OF mb kb] kb by (simp add: s t)
  have md: "?cd ! 0 \<in> set ?cd"
    by (simp add: designer_created example_host_def package_items_def)
  have c: "properties (?cd ! 0) ''work_template'' = Some (PTemplate (Template ''painter_work''))"
    using inst [THEN conjunct2, THEN conjunct2, rule_format, OF md] by (simp add: s t)
  from a b c show ?thesis by simp
qed

text \<open>
  Claim C10. Without a Work Template setting, the session item of the Painter collector
  and the session item of the Blender collector are created with an empty property
  dictionary: neither \<open>work_template\<close> nor \<open>publish_type\<close> is a key. With the setting,
  both keys are set. Every item of the Designer collector has the key \<open>work_template\<close>,
  with the value None when the setting is absent.
\<close>

theorem work_template_key_when_setting_absent:
  "(settings ''Work Template'' = None \<longrightarrow>
      map properties (created w (snd (collect_current_substancepainter_session h settings p w))) =
        [Map.empty] \<and>
      map properties (created w (snd (collect_current_blender_session h settings p w))) =
        [Map.empty]) \<and>
   (\<forall>s. settings ''Work Template'' = Some s \<longrightarrow>
      map properties (created w (snd (collect_current_substancepainter_session h settings p w))) =
        [[''work_template'' \<mapsto> template_value (get_template_by_name h (value_of s)),
          ''publish_type'' \<mapsto> PStr ''Substance Painter Project File'']] \<and>
      map properties (created w (snd (collect_current_blender_session h settings p w))) =
        [[''work_template'' \<mapsto> template_value (get_template_by_name h (value_of s)),
          ''publish_type'' \<mapsto> PStr ''Blender Project File'']]) \<and>
   (\<forall>it \<in> set (created w (snd (collect_current_substancedesigner_session h settings p w))).
      ''work_template'' \<in> dom (properties it) \<and>
      (settings ''Work Template'' = None \<longrightarrow> properties it ''work_template'' = Some PNone))"
proof (intro conjI)
  show "settings ''Work Template'' = None \<longrightarrow>
      map properties (created w (snd (collect_current_substancepainter_session h settings p w))) =
        [Map.empty] \<and>
      map properties (created w (snd (collect_current_blender_session h settings p w))) =
        [Map.empty]"
    by (simp add: painter_session_created blender_session_created filled_def
        session_properties_def)
  show "\<forall>s. settings ''Work Template'' = Some s \<longrightarrow>
      map properties (created w (snd (collect_current_substancepainter_session h settings p w))) =
        [[''work_template'' \<mapsto> template_value (get_template_by_name h (value_of s)),
          ''publish_type'' \<mapsto> PStr ''Substance Painter Project File'']] \<and>
      map properties (created w (snd (collect_current_blender_session h settings p w))) =
        [[''work_template'' \<mapsto> template_value (get_template_by_name h (value_of s)),
          ''publish_type'' \<mapsto> PStr ''Blender Project File'']]"
    by (simp add: painter_session_created blender_session_created filled_def
        session_properties_def)
  show "\<forall>it \<in> set (created w (snd (collect_current_substancedesigner_session h settings p w))).
      ''work_template'' \<in> dom (properties it) \<and>
      (settings ''Work Template'' = None \<longrightarrow> properties it ''work_template'' = Some PNone)"
    by (auto simp: designer_created packages_items_template designer_work_template_def)
qed

theorem work_template_key_witness:
  "map properties (created example_world
     (snd (collect_current_substancepainter_session example_host Map.empty 0 example_world))) =
     [Map.empty] \<and>
   map properties (created example_world
     (snd (collect_current_blender_session example_host Map.empty 0 example_world))) =
     [Map.empty] \<and>
   map properties (created example_world
     (snd (collect_current_substancepainter_session example_host example_settings 0 example_world))) =
     [[''work_template'' \<mapsto> PTemplate (Template ''painter_work''),
       ''publish_type'' \<mapsto> PStr ''Substance Painter Project File'']] \<and>
   map properties (created example_world
     (snd (collect_current_blender_session example_host example_settings 0 example_world))) =
     [[''work_template'' \<mapsto> PTemplate (Template ''painter_work''),
       ''publish_type'' \<mapsto> PStr ''Blender Project File'']] \<and>
   properties (created example_world
     (snd (collect_current_substancedesigner_session example_host Map.empty 0 example_world)) ! 0)
     ''work_template'' = Some PNone"
proof -
  let ?cd = "created example_world
       (snd (collect_current_substancedesigner_session example_host Map.empty 0 example_world))"
  have s: "example_settings ''Work Template'' = Some (Setting (SStr ''painter_work''))"
    by (simp add: example_settings_def)
  have t: "get_template_by_name example_host (SStr ''painter_work'') = Some (Template ''painter_work'')"
    by (simp add: example_host_def)
  have md: "?cd ! 0 \<in> set ?cd"
    by (simp add: designer_created example_host_def package_items_def)
  have a: "map properties (created example_world
     (snd (collect_current_substancepainter_session example_host Map.empty 0 example_world))) =
     [Map.empty] \<and>
   map properties (created example_world
     (snd (collect_current_blender_session example_host Map.empty 0 example_world))) =
     [Map.empty]"
    using work_template_key_when_setting_absent
            [where settings = Map.empty and h = example_host and w = example_world and p = 0,
             THEN conjunct1]
    by simp
  have b: "map properties (created example_world
     (snd (collect_current_substancepainter_session example_host example_settings 0 example_world))) =
     [[''work_template'' \<mapsto> PTemplate (Template ''painter_work''),
       ''publish_type'' \<mapsto> PStr ''Substance Painter Project File'']] \<and>
   map properties (created example_world
     (snd (collect_current_blender_session example_host example_settings 0 example_world))) =
     [[''work_template'' \<mapsto> PTemplate (Template ''painter_work''),
       ''publish_type'' \<mapsto> PStr ''Blender Project File'']]"
    using work_template_key_when_setting_absent
            [where settings = example_settings and h = example_host and w = example_world and p = 0,
             THEN conjunct2, THEN conjunct1, rule_format, OF s]
    by (simp add: t)
  have c: "properties (?cd ! 0) ''work_template'' = Some PNone"
    using work_template_key_when_setting_absent
            [where settings = Map.empty and h = example_host and w = example_world and p = 0,
             THEN conjunct2, THEN conjunct2, rule_format, OF md]
    by simp
  from a b c show ?thesis by simp
qed

end
